theory Spec2Isabelle
  imports Main "HOL-Library.Word"
begin

section \<open>The priority admission plugin (plugin/pkg/admission/priority/admission.go)\<close>

subsection \<open>Data model\<close>

text \<open>
  Priorities are Go \<open>int32\<close> values. The plugin only copies and compares them
  (\<open>!=\<close> and the signed \<open>>\<close>), so they are 32-bit words read through \<open>sint\<close> where
  the order matters.
\<close>

type_synonym int32 = "32 word"

text \<open>
  The fields of a PriorityClass the plugin reads. The listers hand out
  \<open>schedulingv1.PriorityClass\<close> and the validated object is the internal
  \<open>scheduling.PriorityClass\<close>; both carry the same three fields, and \<open>GetName()\<close>
  is the accessor of \<open>Name\<close>.
\<close>

record PriorityClass =
  Name :: string
  Value :: int32
  GlobalDefault :: bool

definition GetName :: "PriorityClass \<Rightarrow> string" where
  "GetName pc = Name pc"

text \<open>The fields of a pod the plugin reads or writes; a nil \<open>*int32\<close> is \<open>None\<close>.\<close>

record PodSpec =
  PriorityClassName :: string
  Priority :: "int32 option"

record Pod =
  Annotations :: "string \<rightharpoonup> string"
  Spec :: PodSpec

text \<open>
  The dynamically typed object of a request: the type assertions
  \<open>a.GetObject().(*api.Pod)\<close> and \<open>a.GetObject().(*scheduling.PriorityClass)\<close> succeed on
  exactly one constructor each. Pointers held by a request are taken to be non-nil when the
  assertion succeeds.
\<close>

datatype object =
    PodObject Pod
  | PriorityClassObject PriorityClass
  | OtherObject
  | NilObject

datatype operation = Create | Update | Delete | Connect

text \<open>\<open>a.GetResource().GroupResource()\<close>: the version component is dropped there.\<close>

record GroupResource =
  Group :: string
  Resource :: string

record attributes =
  GetOperation :: operation
  GetSubresource :: string
  GetResource :: GroupResource
  GetObject :: object
  GetOldObject :: object
  GetNamespace :: string

subsection \<open>Errors\<close>

text \<open>
  An error a lister returns; \<open>errors.IsNotFound\<close> tells a lookup miss from every other
  failure.
\<close>

datatype lister_error = NotFoundError string | OtherError string

fun IsNotFound :: "lister_error \<Rightarrow> bool" where
  "IsNotFound (NotFoundError _) = True"
| "IsNotFound (OtherError _) = False"

text \<open>
  What an error message is formatted from, one constructor for each format string of the
  plugin.
\<close>

datatype cause =
    UnableToConvertPod
  | UnableToConvertPriorityClass
  | NotPermittedInNamespace string string
  | NoPriorityClassFound string
  | PriorityMustNotBeProvided int32 int32
  | AlreadyMarkedAsDefault string
  | FailedToGetDefaultPriorityClass lister_error
  | FailedToGetPriorityClass string lister_error

text \<open>
  The three ways the plugin builds an error: \<open>errors.NewBadRequest\<close> (malformed input),
  \<open>admission.NewForbidden\<close> (policy violation) and a plain \<open>fmt.Errorf\<close> (a failure of
  the index).
\<close>

datatype error =
    BadRequest cause
  | Forbidden cause
  | Errorf cause

subsection \<open>What the plugin reads from its surroundings\<close>

datatype feature = PodPriority | ExperimentalCriticalPodAnnotation

text \<open>
  Process-wide state and the constants and helpers of other packages, all read at call time:
  the feature gate \<open>utilfeature.DefaultFeatureGate\<close>, the package variables
  \<open>podResource\<close> and \<open>priorityClassResource\<close>, \<open>scheduling.SystemPriorityClasses()\<close>,
  \<open>scheduling.SystemClusterCritical\<close>, \<open>metav1.NamespaceSystem\<close>,
  \<open>int32(scheduling.DefaultPriorityWhenNoDefaultClassExists)\<close> and
  \<open>kubelettypes.IsCritical\<close>. Their declarations are outside this package, so they are
  parameters.
\<close>

record env =
  DefaultFeatureGate :: "feature \<Rightarrow> bool"
  podResource :: GroupResource
  priorityClassResource :: GroupResource
  SystemPriorityClasses :: "PriorityClass list"
  SystemClusterCritical :: string
  NamespaceSystem :: string
  DefaultPriorityWhenNoDefaultClassExists :: int32
  IsCritical :: "string \<Rightarrow> (string \<rightharpoonup> string) \<Rightarrow> bool"

definition Enabled :: "(feature \<Rightarrow> bool) \<Rightarrow> feature \<Rightarrow> bool" where
  "Enabled gate f = gate f"

text \<open>
  The index: \<open>lister.List(labels.Everything())\<close> and \<open>lister.Get(name)\<close>, each either an
  error or a result. It is a read-only snapshot for the length of one call.
\<close>

record PriorityClassLister =
  List :: "lister_error + PriorityClass list"
  Get :: "string \<Rightarrow> lister_error + PriorityClass"

record priorityPlugin =
  lister :: PriorityClassLister

subsection \<open>The plugin\<close>

text \<open>
  \<open>priorityClassPermittedInNamespace\<close>: the loop over the system priority classes returns
  false at the first one whose name is the given one, unless the namespace is the system
  namespace.
\<close>

fun permittedLoop :: "env \<Rightarrow> PriorityClass list \<Rightarrow> string \<Rightarrow> string \<Rightarrow> bool" where
  "permittedLoop e [] priorityClassName namespace = True"
| "permittedLoop e (spc # rest) priorityClassName namespace =
     (if Name spc = priorityClassName \<and> namespace \<noteq> NamespaceSystem e then False
      else permittedLoop e rest priorityClassName namespace)"

definition priorityClassPermittedInNamespace :: "env \<Rightarrow> string \<Rightarrow> string \<Rightarrow> bool" where
  "priorityClassPermittedInNamespace e priorityClassName namespace =
     permittedLoop e (SystemPriorityClasses e) priorityClassName namespace"

text \<open>
  \<open>getDefaultPriorityClass\<close>: the loop keeps in \<open>defaultPC\<close> the first of the global
  defaults seen so far whose value no later one undercuts (the comparison is the signed
  \<open>defaultPC.Value > pci.Value\<close>).
\<close>

fun defaultLoop :: "PriorityClass option \<Rightarrow> PriorityClass list \<Rightarrow> PriorityClass option" where
  "defaultLoop defaultPC [] = defaultPC"
| "defaultLoop defaultPC (pci # rest) =
     defaultLoop
       (if GlobalDefault pci then
          (case defaultPC of
             None \<Rightarrow> Some pci
           | Some d \<Rightarrow> if sint (Value d) > sint (Value pci) then Some pci else Some d)
        else defaultPC)
       rest"

definition getDefaultPriorityClass :: "priorityPlugin \<Rightarrow> lister_error + PriorityClass option" where
  "getDefaultPriorityClass p =
     (case List (lister p) of
        Inl err \<Rightarrow> Inl err
      | Inr list \<Rightarrow> Inr (defaultLoop None list))"

definition getDefaultPriority :: "env \<Rightarrow> priorityPlugin \<Rightarrow> lister_error + (string \<times> int32)" where
  "getDefaultPriority e p =
     (case getDefaultPriorityClass p of
        Inl err \<Rightarrow> Inl err
      | Inr (Some dpc) \<Rightarrow> Inr (Name dpc, Value dpc)
      | Inr None \<Rightarrow> Inr ([], DefaultPriorityWhenNoDefaultClassExists e))"

text \<open>
  \<open>admitPod\<close> changes the pod in place, also on the paths that end in an error, so the
  model returns the error (if any) together with the request's object as the call leaves it.
\<close>

definition admitPod :: "env \<Rightarrow> priorityPlugin \<Rightarrow> attributes \<Rightarrow> error option \<times> object" where
  "admitPod e p a =
     (let operation = GetOperation a in
      case GetObject a of
        PodObject pod \<Rightarrow>
          if operation = Update then
            (case GetOldObject a of
               PodObject oldPod \<Rightarrow>
                 if Priority (Spec pod) = None \<and> Priority (Spec oldPod) \<noteq> None
                 then (None, PodObject (pod\<lparr>Spec := (Spec pod)\<lparr>Priority := Priority (Spec oldPod)\<rparr>\<rparr>))
                 else (None, PodObject pod)
             | _ \<Rightarrow> (Some (BadRequest UnableToConvertPod), PodObject pod))
          else if operation = Create then
            (let pod1 =
                   (if length (PriorityClassName (Spec pod)) = 0 \<and>
                       Enabled (DefaultFeatureGate e) ExperimentalCriticalPodAnnotation \<and>
                       IsCritical e (GetNamespace a) (Annotations pod)
                    then pod\<lparr>Spec := (Spec pod)\<lparr>PriorityClassName := SystemClusterCritical e\<rparr>\<rparr>
                    else pod);
                 resolved =
                   (if length (PriorityClassName (Spec pod1)) = 0 then
                      (case getDefaultPriority e p of
                         Inl err \<Rightarrow> Inl (Errorf (FailedToGetDefaultPriorityClass err), pod1)
                       | Inr (pcName, priority) \<Rightarrow>
                           Inr (pod1\<lparr>Spec := (Spec pod1)\<lparr>PriorityClassName := pcName\<rparr>\<rparr>, priority))
                    else
                      (let pcName = PriorityClassName (Spec pod1) in
                       if \<not> priorityClassPermittedInNamespace e pcName (GetNamespace a)
                       then Inl (Forbidden (NotPermittedInNamespace pcName (GetNamespace a)), pod1)
                       else
                         (case Get (lister p) (PriorityClassName (Spec pod1)) of
                            Inl err \<Rightarrow>
                              if IsNotFound err
                              then Inl (Forbidden (NoPriorityClassFound (PriorityClassName (Spec pod1))), pod1)
                              else Inl (Errorf (FailedToGetPriorityClass (PriorityClassName (Spec pod1)) err), pod1)
                          | Inr pc \<Rightarrow> Inr (pod1, Value pc))))
             in case resolved of
                  Inl (err, pod2) \<Rightarrow> (Some err, PodObject pod2)
                | Inr (pod2, priority) \<Rightarrow>
                    (case Priority (Spec pod2) of
                       Some given \<Rightarrow>
                         if given \<noteq> priority
                         then (Some (Forbidden (PriorityMustNotBeProvided given priority)), PodObject pod2)
                         else (None, PodObject (pod2\<lparr>Spec := (Spec pod2)\<lparr>Priority := Some priority\<rparr>\<rparr>))
                     | None \<Rightarrow>
                         (None, PodObject (pod2\<lparr>Spec := (Spec pod2)\<lparr>Priority := Some priority\<rparr>\<rparr>))))
          else (None, PodObject pod)
      | obj \<Rightarrow> (Some (BadRequest UnableToConvertPod), obj))"

text \<open>\<open>validatePriorityClass\<close> reads the object and the index and changes neither.\<close>

definition validatePriorityClass :: "env \<Rightarrow> priorityPlugin \<Rightarrow> attributes \<Rightarrow> error option" where
  "validatePriorityClass e p a =
     (let operation = GetOperation a in
      case GetObject a of
        PriorityClassObject pc \<Rightarrow>
          if GlobalDefault pc then
            (case getDefaultPriorityClass p of
               Inl err \<Rightarrow> Some (Errorf (FailedToGetDefaultPriorityClass err))
             | Inr None \<Rightarrow> None
             | Inr (Some dpc) \<Rightarrow>
                 if operation = Create \<or> (operation = Update \<and> GetName dpc \<noteq> GetName pc)
                 then Some (Forbidden (AlreadyMarkedAsDefault (GetName dpc)))
                 else None)
          else None
      | _ \<Rightarrow> Some (BadRequest UnableToConvertPriorityClass))"

text \<open>\<open>Admit\<close>: the mutating entry point; it returns the object as the call leaves it.\<close>

definition Admit :: "env \<Rightarrow> priorityPlugin \<Rightarrow> attributes \<Rightarrow> error option \<times> object" where
  "Admit e p a =
     (if \<not> Enabled (DefaultFeatureGate e) PodPriority then (None, GetObject a)
      else
        (let operation = GetOperation a in
         if length (GetSubresource a) \<noteq> 0 then (None, GetObject a)
         else if GetResource a = podResource e then
           (if operation = Create \<or> operation = Update then admitPod e p a
            else (None, GetObject a))
         else (None, GetObject a)))"

text \<open>\<open>Validate\<close>: the validating entry point.\<close>

definition Validate :: "env \<Rightarrow> priorityPlugin \<Rightarrow> attributes \<Rightarrow> error option" where
  "Validate e p a =
     (let operation = GetOperation a in
      if length (GetSubresource a) \<noteq> 0 then None
      else if GetResource a = priorityClassResource e then
        (if operation = Create \<or> operation = Update then validatePriorityClass e p a
         else None)
      else None)"

subsection \<open>A sample cluster\<close>

text \<open>
  Concrete surroundings on which the theorems below are instantiated: the values upstream
  Kubernetes gives the parameters of \<open>env\<close>, an index that serves \<open>List\<close> and
  \<open>Get\<close> from one list of classes, and requests for a pod and for a PriorityClass.
\<close>

definition gateOf :: "bool \<Rightarrow> bool \<Rightarrow> feature \<Rightarrow> bool" where
  "gateOf podPriority criticalAnnotation f =
     (case f of PodPriority \<Rightarrow> podPriority | ExperimentalCriticalPodAnnotation \<Rightarrow> criticalAnnotation)"

definition kubeEnv :: "(feature \<Rightarrow> bool) \<Rightarrow> env" where
  "kubeEnv gate =
     \<lparr>DefaultFeatureGate = gate,
      podResource = \<lparr>Group = [], Resource = ''pods''\<rparr>,
      priorityClassResource = \<lparr>Group = ''scheduling.k8s.io'', Resource = ''priorityclasses''\<rparr>,
      SystemPriorityClasses =
        [\<lparr>Name = ''system-node-critical'', Value = 2000001000, GlobalDefault = False\<rparr>,
         \<lparr>Name = ''system-cluster-critical'', Value = 2000000000, GlobalDefault = False\<rparr>],
      SystemClusterCritical = ''system-cluster-critical'',
      NamespaceSystem = ''kube-system'',
      DefaultPriorityWhenNoDefaultClassExists = 0,
      IsCritical = (\<lambda>ns annotations.
        ns = ''kube-system'' \<and>
        annotations ''scheduler.alpha.kubernetes.io/critical-pod'' = Some [])\<rparr>"

definition listerOf :: "PriorityClass list \<Rightarrow> PriorityClassLister" where
  "listerOf classes =
     \<lparr>List = Inr classes,
      Get = (\<lambda>name. case find (\<lambda>c. Name c = name) classes of
                       None \<Rightarrow> Inl (NotFoundError name)
                     | Some c \<Rightarrow> Inr c)\<rparr>"

definition podRequest :: "operation \<Rightarrow> string \<Rightarrow> Pod \<Rightarrow> object \<Rightarrow> attributes" where
  "podRequest operation namespace pod old =
     \<lparr>GetOperation = operation, GetSubresource = [],
      GetResource = \<lparr>Group = [], Resource = ''pods''\<rparr>,
      GetObject = PodObject pod, GetOldObject = old, GetNamespace = namespace\<rparr>"

definition classRequest :: "operation \<Rightarrow> PriorityClass \<Rightarrow> attributes" where
  "classRequest operation pc =
     \<lparr>GetOperation = operation, GetSubresource = [],
      GetResource = \<lparr>Group = ''scheduling.k8s.io'', Resource = ''priorityclasses''\<rparr>,
      GetObject = PriorityClassObject pc, GetOldObject = NilObject, GetNamespace = []\<rparr>"

definition plainPod :: "string \<Rightarrow> int32 option \<Rightarrow> Pod" where
  "plainPod className priority =
     \<lparr>Annotations = Map.empty, Spec = \<lparr>PriorityClassName = className, Priority = priority\<rparr>\<rparr>"

section \<open>Properties\<close>

subsection \<open>The two loops\<close>

lemma permittedLoop_iff:
  "permittedLoop e spcs n ns = (\<not> (n \<in> Name ` set spcs \<and> ns \<noteq> NamespaceSystem e))"
  by (induction spcs) auto

lemma defaultLoop_no_default:
  "\<forall>c \<in> set l. \<not> GlobalDefault c \<Longrightarrow> defaultLoop acc l = acc"
  by (induction l arbitrary: acc) simp_all

lemma defaultLoop_Some:
  "\<exists>d. defaultLoop (Some a) l = Some d \<and> (d = a \<or> (d \<in> set l \<and> GlobalDefault d)) \<and>
       sint (Value d) \<le> sint (Value a) \<and>
       (\<forall>c \<in> set l. GlobalDefault c \<longrightarrow> sint (Value d) \<le> sint (Value c))"
proof (induction l arbitrary: a)
  case Nil
  show ?case by simp
next
  case (Cons pci rest)
  show ?case
  proof (cases "GlobalDefault pci \<and> sint (Value a) > sint (Value pci)")
    case True
    from Cons.IH [of pci] obtain d where
      d: "defaultLoop (Some pci) rest = Some d" "d = pci \<or> (d \<in> set rest \<and> GlobalDefault d)"
         "sint (Value d) \<le> sint (Value pci)"
         "\<forall>c \<in> set rest. GlobalDefault c \<longrightarrow> sint (Value d) \<le> sint (Value c)"
      by blast
    with True show ?thesis by auto
  next
    case False
    from Cons.IH [of a] obtain d where
      d: "defaultLoop (Some a) rest = Some d" "d = a \<or> (d \<in> set rest \<and> GlobalDefault d)"
         "sint (Value d) \<le> sint (Value a)"
         "\<forall>c \<in> set rest. GlobalDefault c \<longrightarrow> sint (Value d) \<le> sint (Value c)"
      by blast
    with False show ?thesis by auto
  qed
qed

lemma defaultLoop_None:
  "(defaultLoop None l = None \<and> (\<forall>c \<in> set l. \<not> GlobalDefault c)) \<or>
   (\<exists>d. defaultLoop None l = Some d \<and> d \<in> set l \<and> GlobalDefault d \<and>
        (\<forall>c \<in> set l. GlobalDefault c \<longrightarrow> sint (Value d) \<le> sint (Value c)))"
proof (induction l)
  case Nil
  show ?case by simp
next
  case (Cons pci rest)
  show ?case
  proof (cases "GlobalDefault pci")
    case True
    from defaultLoop_Some [of pci rest] obtain d where
      "defaultLoop (Some pci) rest = Some d" "d = pci \<or> (d \<in> set rest \<and> GlobalDefault d)"
      "sint (Value d) \<le> sint (Value pci)"
      "\<forall>c \<in> set rest. GlobalDefault c \<longrightarrow> sint (Value d) \<le> sint (Value c)"
      by blast
    with True show ?thesis by auto
  next
    case False
    with Cons.IH show ?thesis by auto
  qed
qed

lemma defaultLoop_None_iff:
  "defaultLoop None l = None \<longleftrightarrow> (\<forall>c \<in> set l. \<not> GlobalDefault c)"
  using defaultLoop_None [of l] by auto

lemma getDefaultPriorityClass_none:
  "List (lister p) = Inr list \<Longrightarrow> \<forall>c \<in> set list. \<not> GlobalDefault c \<Longrightarrow>
   getDefaultPriorityClass p = Inr None"
  by (simp add: getDefaultPriorityClass_def defaultLoop_no_default)

lemma getDefaultPriorityClass_some:
  assumes "List (lister p) = Inr list" and "\<exists>c \<in> set list. GlobalDefault c"
  shows "\<exists>d \<in> set list. GlobalDefault d \<and>
           (\<forall>c \<in> set list. GlobalDefault c \<longrightarrow> sint (Value d) \<le> sint (Value c)) \<and>
           getDefaultPriorityClass p = Inr (Some d)"
  using assms defaultLoop_None [of list] by (auto simp add: getDefaultPriorityClass_def)

subsection \<open>Dispatch\<close>

text \<open>
  \<open>Admit\<close> hands a request to \<open>admitPod\<close>, and \<open>Validate\<close> to
  \<open>validatePriorityClass\<close>, when it is a Create or an Update of the primary resource
  (no subresource) of the matching kind; \<open>Admit\<close> only with the pod-priority feature
  enabled. The lemmas on \<open>admitPod\<close> and \<open>validatePriorityClass\<close> below carry over to
  the entry points through these two.
\<close>

lemma Admit_dispatch:
  "Enabled (DefaultFeatureGate e) PodPriority \<Longrightarrow> GetSubresource a = [] \<Longrightarrow>
   GetResource a = podResource e \<Longrightarrow> GetOperation a = Create \<or> GetOperation a = Update \<Longrightarrow>
   Admit e p a = admitPod e p a"
  by (auto simp add: Admit_def)

lemma Validate_dispatch:
  "GetSubresource a = [] \<Longrightarrow> GetResource a = priorityClassResource e \<Longrightarrow>
   GetOperation a = Create \<or> GetOperation a = Update \<Longrightarrow>
   Validate e p a = validatePriorityClass e p a"
  by (auto simp add: Validate_def)

subsection \<open>Resolution of a pod's priority on Create\<close>

text \<open>
  C1. On Create of a pod whose \<open>PriorityClassName\<close> is empty and stays empty after the
  critical-pod step, when \<open>List\<close> succeeds and shows more than one class with
  \<open>GlobalDefault\<close> set, the resolved default \<open>d\<close> is one of the listed global defaults
  and no listed global default has a lower (signed) value. \<open>getDefaultPriority\<close> returns its
  name and value, and \<open>admitPod\<close> stamps them on the pod (or rejects a pod that carries another
  priority). In particular, when the values of the listed defaults are 10 and 5, the resolved
  value is 5.
\<close>

theorem admitPod_lowest_global_default:
  assumes "GetOperation a = Create"
    and "GetObject a = PodObject pod"
    and "PriorityClassName (Spec pod) = []"
    and "\<not> (Enabled (DefaultFeatureGate e) ExperimentalCriticalPodAnnotation \<and>
             IsCritical e (GetNamespace a) (Annotations pod))"
    and "List (lister p) = Inr list"
    and "1 < length (filter GlobalDefault list)"
  shows "\<exists>d \<in> set list.
           GlobalDefault d \<and>
           (\<forall>c \<in> set list. GlobalDefault c \<longrightarrow> sint (Value d) \<le> sint (Value c)) \<and>
           getDefaultPriority e p = Inr (Name d, Value d) \<and>
           admitPod e p a =
             (case Priority (Spec pod) of
                None \<Rightarrow>
                  (None, PodObject (pod\<lparr>Spec := \<lparr>PriorityClassName = Name d, Priority = Some (Value d)\<rparr>\<rparr>))
              | Some given \<Rightarrow>
                  if given = Value d
                  then (None, PodObject (pod\<lparr>Spec := \<lparr>PriorityClassName = Name d, Priority = Some (Value d)\<rparr>\<rparr>))
                  else (Some (Forbidden (PriorityMustNotBeProvided given (Value d))),
                        PodObject (pod\<lparr>Spec := \<lparr>PriorityClassName = Name d, Priority = Some given\<rparr>\<rparr>))) \<and>
           (set (map Value (filter GlobalDefault list)) = {10, 5} \<longrightarrow> Value d = 5)"
proof -
  from assms(6) have "filter GlobalDefault list \<noteq> []" by auto
  then have "\<exists>c \<in> set list. GlobalDefault c"
    by (simp add: filter_empty_conv)
  with defaultLoop_None [of list] obtain d where
    d: "defaultLoop None list = Some d" "d \<in> set list" "GlobalDefault d"
       "\<forall>c \<in> set list. GlobalDefault c \<longrightarrow> sint (Value d) \<le> sint (Value c)"
    by auto
  have gdp: "getDefaultPriority e p = Inr (Name d, Value d)"
    using assms(5) d(1) by (simp add: getDefaultPriority_def getDefaultPriorityClass_def)
  have adm: "admitPod e p a =
             (case Priority (Spec pod) of
                None \<Rightarrow>
                  (None, PodObject (pod\<lparr>Spec := \<lparr>PriorityClassName = Name d, Priority = Some (Value d)\<rparr>\<rparr>))
              | Some given \<Rightarrow>
                  if given = Value d
                  then (None, PodObject (pod\<lparr>Spec := \<lparr>PriorityClassName = Name d, Priority = Some (Value d)\<rparr>\<rparr>))
                  else (Some (Forbidden (PriorityMustNotBeProvided given (Value d))),
                        PodObject (pod\<lparr>Spec := \<lparr>PriorityClassName = Name d, Priority = Some given\<rparr>\<rparr>)))"
    using assms(1-4) gdp
    by (cases "Spec pod") (auto simp add: admitPod_def Let_def split: option.splits)
  have five: "set (map Value (filter GlobalDefault list)) = {10, 5} \<longrightarrow> Value d = 5"
  proof
    assume eq: "set (map Value (filter GlobalDefault list)) = {10, 5}"
    from d(2,3) have "Value d \<in> set (map Value (filter GlobalDefault list))" by simp
    with eq have dv: "Value d = 10 \<or> Value d = 5" by simp
    from eq have "(5::int32) \<in> set (map Value (filter GlobalDefault list))" by simp
    then obtain c where "c \<in> set list" "GlobalDefault c" "Value c = 5" by auto
    with d(4) have "sint (Value d) \<le> sint (5::int32)" by metis
    with dv show "Value d = 5" by auto
  qed
  from d(2,3,4) gdp adm five show ?thesis by blast
qed

theorem admitPod_lowest_global_default_witness:
  "GetOperation (podRequest Create ''default'' (plainPod [] None) NilObject) = Create \<and>
   1 < length (filter GlobalDefault
         [\<lparr>Name = ''ten'', Value = 10, GlobalDefault = True\<rparr>,
          \<lparr>Name = ''five'', Value = 5, GlobalDefault = True\<rparr>]) \<and>
   admitPod (kubeEnv (gateOf True True))
     \<lparr>lister = listerOf
        [\<lparr>Name = ''ten'', Value = 10, GlobalDefault = True\<rparr>,
         \<lparr>Name = ''five'', Value = 5, GlobalDefault = True\<rparr>]\<rparr>
     (podRequest Create ''default'' (plainPod [] None) NilObject) =
   (None, PodObject (plainPod ''five'' (Some 5)))"
proof -
  let ?e = "kubeEnv (gateOf True True)"
  let ?l = "[\<lparr>Name = ''ten'', Value = 10, GlobalDefault = True\<rparr>,
             \<lparr>Name = ''five'', Value = 5, GlobalDefault = True\<rparr>]"
  let ?p = "\<lparr>lister = listerOf ?l\<rparr>"
  let ?pod = "plainPod [] None"
  let ?a = "podRequest Create ''default'' ?pod NilObject"
  have h1: "GetOperation ?a = Create" by (simp add: podRequest_def)
  have h2: "GetObject ?a = PodObject ?pod" by (simp add: podRequest_def)
  have h3: "PriorityClassName (Spec ?pod) = []" by (simp add: plainPod_def)
  have h4: "\<not> (Enabled (DefaultFeatureGate ?e) ExperimentalCriticalPodAnnotation \<and>
             IsCritical ?e (GetNamespace ?a) (Annotations ?pod))"
    by (simp add: kubeEnv_def podRequest_def plainPod_def)
  have h5: "List (lister ?p) = Inr ?l" by (simp add: listerOf_def)
  have h6: "1 < length (filter GlobalDefault ?l)" by simp
  from admitPod_lowest_global_default [OF h1 h2 h3 h4 h5 h6] obtain d where
    d: "d \<in> set ?l"
       "admitPod ?e ?p ?a =
          (case Priority (Spec ?pod) of
             None \<Rightarrow>
               (None, PodObject (?pod\<lparr>Spec := \<lparr>PriorityClassName = Name d, Priority = Some (Value d)\<rparr>\<rparr>))
           | Some given \<Rightarrow>
               if given = Value d
               then (None, PodObject (?pod\<lparr>Spec := \<lparr>PriorityClassName = Name d, Priority = Some (Value d)\<rparr>\<rparr>))
               else (Some (Forbidden (PriorityMustNotBeProvided given (Value d))),
                     PodObject (?pod\<lparr>Spec := \<lparr>PriorityClassName = Name d, Priority = Some given\<rparr>\<rparr>)))"
       "set (map Value (filter GlobalDefault ?l)) = {10, 5} \<longrightarrow> Value d = 5"
    by blast
  have "set (map Value (filter GlobalDefault ?l)) = {10, 5}" by simp
  with d(3) have "Value d = 5" by simp
  with d(1) have "Name d = ''five''" by auto
  with d(2) \<open>Value d = 5\<close> h1 h6 show ?thesis by (simp add: plainPod_def)
qed

text \<open>
  C5. On Create of a pod with no priority and no class name, the critical-pod step not
  firing, when \<open>List\<close> succeeds and shows no class with \<open>GlobalDefault\<close> set: admission
  succeeds, the priority is the fallback constant
  \<open>DefaultPriorityWhenNoDefaultClassExists\<close>, and the class name is still empty.
\<close>

theorem admitPod_Create_fallback_priority:
  assumes "GetOperation a = Create"
    and "GetObject a = PodObject pod"
    and "Priority (Spec pod) = None"
    and "PriorityClassName (Spec pod) = []"
    and "\<not> (Enabled (DefaultFeatureGate e) ExperimentalCriticalPodAnnotation \<and>
             IsCritical e (GetNamespace a) (Annotations pod))"
    and "List (lister p) = Inr list"
    and "\<forall>c \<in> set list. \<not> GlobalDefault c"
  shows "admitPod e p a =
           (None, PodObject (pod\<lparr>Spec :=
              \<lparr>PriorityClassName = [],
               Priority = Some (DefaultPriorityWhenNoDefaultClassExists e)\<rparr>\<rparr>))"
proof -
  have "getDefaultPriority e p = Inr ([], DefaultPriorityWhenNoDefaultClassExists e)"
    using assms(6,7) by (simp add: getDefaultPriority_def getDefaultPriorityClass_none)
  with assms(1-5) show ?thesis
    by (cases "Spec pod") (auto simp add: admitPod_def Let_def)
qed

theorem admitPod_Create_fallback_priority_witness:
  "filter GlobalDefault [\<lparr>Name = ''batch'', Value = 100, GlobalDefault = False\<rparr>] = [] \<and>
   admitPod (kubeEnv (gateOf True True))
     \<lparr>lister = listerOf [\<lparr>Name = ''batch'', Value = 100, GlobalDefault = False\<rparr>]\<rparr>
     (podRequest Create ''default'' (plainPod [] None) NilObject) =
   (None, PodObject (plainPod [] (Some 0)))"
proof -
  let ?e = "kubeEnv (gateOf True True)"
  let ?l = "[\<lparr>Name = ''batch'', Value = 100, GlobalDefault = False\<rparr>]"
  let ?p = "\<lparr>lister = listerOf ?l\<rparr>"
  let ?pod = "plainPod [] None"
  let ?a = "podRequest Create ''default'' ?pod NilObject"
  have h1: "GetOperation ?a = Create" by (simp add: podRequest_def)
  have h2: "GetObject ?a = PodObject ?pod" by (simp add: podRequest_def)
  have h3: "Priority (Spec ?pod) = None" by (simp add: plainPod_def)
  have h4: "PriorityClassName (Spec ?pod) = []" by (simp add: plainPod_def)
  have h5: "\<not> (Enabled (DefaultFeatureGate ?e) ExperimentalCriticalPodAnnotation \<and>
             IsCritical ?e (GetNamespace ?a) (Annotations ?pod))"
    by (simp add: kubeEnv_def podRequest_def plainPod_def)
  have h6: "List (lister ?p) = Inr ?l" by (simp add: listerOf_def)
  have h7: "\<forall>c \<in> set ?l. \<not> GlobalDefault c" by simp
  from admitPod_Create_fallback_priority [OF h1 h2 h3 h4 h5 h6 h7]
  show ?thesis by (simp add: plainPod_def kubeEnv_def)
qed

text \<open>
  C6. On Create of a pod that carries a priority \<open>given\<close>, with \<open>name\<close> the class name
  after the critical-pod step: when \<open>name\<close> is empty and the default resolution yields
  \<open>computed\<close> (the value of the default class, or the fallback), or when \<open>name\<close> is a
  permitted class the index finds, with value \<open>Value pc\<close>, then a \<open>given\<close> that differs
  from the computed value is rejected as forbidden, and a \<open>given\<close> equal to it is admitted with
  the priority left as it was.
\<close>

theorem admitPod_Create_given_priority:
  assumes "GetOperation a = Create"
    and "GetObject a = PodObject pod"
    and "Priority (Spec pod) = Some given"
    and "name =
          (if length (PriorityClassName (Spec pod)) = 0 \<and>
              Enabled (DefaultFeatureGate e) ExperimentalCriticalPodAnnotation \<and>
              IsCritical e (GetNamespace a) (Annotations pod)
           then SystemClusterCritical e else PriorityClassName (Spec pod))"
  shows "(name = [] \<and> getDefaultPriority e p = Inr (pcName, computed) \<longrightarrow>
            (given \<noteq> computed \<longrightarrow>
               admitPod e p a =
                 (Some (Forbidden (PriorityMustNotBeProvided given computed)),
                  PodObject (pod\<lparr>Spec := \<lparr>PriorityClassName = pcName, Priority = Some given\<rparr>\<rparr>))) \<and>
            (given = computed \<longrightarrow>
               admitPod e p a =
                 (None, PodObject (pod\<lparr>Spec := \<lparr>PriorityClassName = pcName, Priority = Some given\<rparr>\<rparr>)))) \<and>
         (name \<noteq> [] \<and> priorityClassPermittedInNamespace e name (GetNamespace a) \<and>
          Get (lister p) name = Inr pc \<longrightarrow>
            (given \<noteq> Value pc \<longrightarrow>
               admitPod e p a =
                 (Some (Forbidden (PriorityMustNotBeProvided given (Value pc))),
                  PodObject (pod\<lparr>Spec := \<lparr>PriorityClassName = name, Priority = Some given\<rparr>\<rparr>))) \<and>
            (given = Value pc \<longrightarrow>
               admitPod e p a =
                 (None, PodObject (pod\<lparr>Spec := \<lparr>PriorityClassName = name, Priority = Some given\<rparr>\<rparr>))))"
  using assms
  by (cases "Spec pod") (auto simp add: admitPod_def Let_def)

theorem admitPod_Create_given_priority_witness:
  "admitPod (kubeEnv (gateOf True True))
     \<lparr>lister = listerOf [\<lparr>Name = ''batch'', Value = 100, GlobalDefault = False\<rparr>]\<rparr>
     (podRequest Create ''default'' (plainPod ''batch'' (Some 7)) NilObject) =
   (Some (Forbidden (PriorityMustNotBeProvided 7 100)), PodObject (plainPod ''batch'' (Some 7))) \<and>
   admitPod (kubeEnv (gateOf True True))
     \<lparr>lister = listerOf [\<lparr>Name = ''batch'', Value = 100, GlobalDefault = False\<rparr>]\<rparr>
     (podRequest Create ''default'' (plainPod ''batch'' (Some 100)) NilObject) =
   (None, PodObject (plainPod ''batch'' (Some 100))) \<and>
   admitPod (kubeEnv (gateOf True True))
     \<lparr>lister = listerOf [\<lparr>Name = ''batch'', Value = 100, GlobalDefault = False\<rparr>]\<rparr>
     (podRequest Create ''default'' (plainPod [] (Some 3)) NilObject) =
   (Some (Forbidden (PriorityMustNotBeProvided 3 0)), PodObject (plainPod [] (Some 3))) \<and>
   admitPod (kubeEnv (gateOf True True))
     \<lparr>lister = listerOf [\<lparr>Name = ''batch'', Value = 100, GlobalDefault = False\<rparr>]\<rparr>
     (podRequest Create ''default'' (plainPod [] (Some 0)) NilObject) =
   (None, PodObject (plainPod [] (Some 0)))"
proof -
  let ?e = "kubeEnv (gateOf True True)"
  let ?batch = "\<lparr>Name = ''batch'', Value = 100, GlobalDefault = False\<rparr>"
  let ?p = "\<lparr>lister = listerOf [?batch]\<rparr>"
  have get: "Get (lister ?p) ''batch'' = Inr ?batch" by (simp add: listerOf_def)
  have dflt: "getDefaultPriority ?e ?p = Inr ([], 0)"
    by (simp add: getDefaultPriority_def getDefaultPriorityClass_def listerOf_def kubeEnv_def)
  have perm: "priorityClassPermittedInNamespace ?e ''batch'' ''default''"
    by (simp add: priorityClassPermittedInNamespace_def kubeEnv_def)
  have c1: "admitPod ?e ?p (podRequest Create ''default'' (plainPod ''batch'' (Some 7)) NilObject) =
    (Some (Forbidden (PriorityMustNotBeProvided 7 100)), PodObject (plainPod ''batch'' (Some 7)))"
    using admitPod_Create_given_priority
      [of "podRequest Create ''default'' (plainPod ''batch'' (Some 7)) NilObject"
          "plainPod ''batch'' (Some 7)" 7 "''batch''" ?e ?p _ _ ?batch] get perm
    by (simp add: podRequest_def plainPod_def)
  have c2: "admitPod ?e ?p (podRequest Create ''default'' (plainPod ''batch'' (Some 100)) NilObject) =
    (None, PodObject (plainPod ''batch'' (Some 100)))"
    using admitPod_Create_given_priority
      [of "podRequest Create ''default'' (plainPod ''batch'' (Some 100)) NilObject"
          "plainPod ''batch'' (Some 100)" 100 "''batch''" ?e ?p _ _ ?batch] get perm
    by (simp add: podRequest_def plainPod_def)
  have c3: "admitPod ?e ?p (podRequest Create ''default'' (plainPod [] (Some 3)) NilObject) =
    (Some (Forbidden (PriorityMustNotBeProvided 3 0)), PodObject (plainPod [] (Some 3)))"
    using admitPod_Create_given_priority
      [of "podRequest Create ''default'' (plainPod [] (Some 3)) NilObject"
          "plainPod [] (Some 3)" 3 "[]" ?e ?p "[]" 0] dflt
    by (simp add: podRequest_def plainPod_def kubeEnv_def)
  have c4: "admitPod ?e ?p (podRequest Create ''default'' (plainPod [] (Some 0)) NilObject) =
    (None, PodObject (plainPod [] (Some 0)))"
    using admitPod_Create_given_priority
      [of "podRequest Create ''default'' (plainPod [] (Some 0)) NilObject"
          "plainPod [] (Some 0)" 0 "[]" ?e ?p "[]" 0] dflt
    by (simp add: podRequest_def plainPod_def kubeEnv_def)
  from c1 c2 c3 c4 show ?thesis by simp
qed

text \<open>
  C9. On Create of a pod naming a class that passes the namespace check, a failed \<open>Get\<close> is
  answered with a forbidden error when the lister's error is not-found, and with a plain
  error (not a forbidden one) for any other lister error. On the default path, a failed
  \<open>List\<close> is answered with a plain error as well. The pod is left as it was.
\<close>

theorem admitPod_Create_index_failure:
  assumes "GetOperation a = Create"
    and "GetObject a = PodObject pod"
  shows "(PriorityClassName (Spec pod) \<noteq> [] \<and>
          priorityClassPermittedInNamespace e (PriorityClassName (Spec pod)) (GetNamespace a) \<and>
          Get (lister p) (PriorityClassName (Spec pod)) = Inl err \<longrightarrow>
            admitPod e p a =
              (if IsNotFound err
               then (Some (Forbidden (NoPriorityClassFound (PriorityClassName (Spec pod)))), PodObject pod)
               else (Some (Errorf (FailedToGetPriorityClass (PriorityClassName (Spec pod)) err)),
                     PodObject pod))) \<and>
         (PriorityClassName (Spec pod) = [] \<and>
          \<not> (Enabled (DefaultFeatureGate e) ExperimentalCriticalPodAnnotation \<and>
             IsCritical e (GetNamespace a) (Annotations pod)) \<and>
          List (lister p) = Inl err \<longrightarrow>
            admitPod e p a = (Some (Errorf (FailedToGetDefaultPriorityClass err)), PodObject pod))"
  using assms
  by (auto simp add: admitPod_def Let_def getDefaultPriority_def getDefaultPriorityClass_def)

theorem admitPod_Create_index_failure_witness:
  "admitPod (kubeEnv (gateOf True True)) \<lparr>lister = listerOf []\<rparr>
     (podRequest Create ''default'' (plainPod ''batch'' None) NilObject) =
   (Some (Forbidden (NoPriorityClassFound ''batch'')), PodObject (plainPod ''batch'' None)) \<and>
   admitPod (kubeEnv (gateOf True True))
     \<lparr>lister = \<lparr>List = Inl (OtherError ''unavailable''),
                 Get = (\<lambda>name. Inl (OtherError ''unavailable''))\<rparr>\<rparr>
     (podRequest Create ''default'' (plainPod ''batch'' None) NilObject) =
   (Some (Errorf (FailedToGetPriorityClass ''batch'' (OtherError ''unavailable''))),
    PodObject (plainPod ''batch'' None)) \<and>
   admitPod (kubeEnv (gateOf True True))
     \<lparr>lister = \<lparr>List = Inl (OtherError ''unavailable''),
                 Get = (\<lambda>name. Inl (OtherError ''unavailable''))\<rparr>\<rparr>
     (podRequest Create ''default'' (plainPod [] None) NilObject) =
   (Some (Errorf (FailedToGetDefaultPriorityClass (OtherError ''unavailable''))),
    PodObject (plainPod [] None))"
proof -
  let ?e = "kubeEnv (gateOf True True)"
  let ?down = "\<lparr>lister = \<lparr>List = Inl (OtherError ''unavailable''),
                 Get = (\<lambda>name. Inl (OtherError ''unavailable''))\<rparr>\<rparr>"
  let ?a = "podRequest Create ''default'' (plainPod ''batch'' None) NilObject"
  let ?b = "podRequest Create ''default'' (plainPod [] None) NilObject"
  have a: "GetOperation ?a = Create" "GetObject ?a = PodObject (plainPod ''batch'' None)"
    by (simp_all add: podRequest_def)
  have b: "GetOperation ?b = Create" "GetObject ?b = PodObject (plainPod [] None)"
    by (simp_all add: podRequest_def)
  have perm: "priorityClassPermittedInNamespace ?e ''batch'' ''default''"
    by (simp add: priorityClassPermittedInNamespace_def kubeEnv_def)
  have c1: "admitPod ?e \<lparr>lister = listerOf []\<rparr> ?a =
    (Some (Forbidden (NoPriorityClassFound ''batch'')), PodObject (plainPod ''batch'' None))"
    using admitPod_Create_index_failure
      [OF a, of ?e "\<lparr>lister = listerOf []\<rparr>" "NotFoundError ''batch''"] perm
    by (simp add: podRequest_def plainPod_def listerOf_def)
  have c2: "admitPod ?e ?down ?a =
    (Some (Errorf (FailedToGetPriorityClass ''batch'' (OtherError ''unavailable''))),
     PodObject (plainPod ''batch'' None))"
    using admitPod_Create_index_failure [OF a, of ?e ?down "OtherError ''unavailable''"] perm
    by (simp add: podRequest_def plainPod_def)
  have c3: "admitPod ?e ?down ?b =
    (Some (Errorf (FailedToGetDefaultPriorityClass (OtherError ''unavailable''))),
     PodObject (plainPod [] None))"
    using admitPod_Create_index_failure [OF b, of ?e ?down "OtherError ''unavailable''"]
    by (simp add: podRequest_def plainPod_def kubeEnv_def)
  from c1 c2 c3 show ?thesis by simp
qed

subsection \<open>Update of a pod\<close>

text \<open>
  C7. On Update, with both objects pods: if the new pod has no priority and the old one has,
  the old value is copied onto the new pod; if the new pod has a priority, the pod is returned
  as it is. The call never fails, the result is the new pod with at most its \<open>Priority\<close>
  replaced, and the replacement is a function of the two priorities alone.
\<close>

theorem admitPod_Update_preserves_priority:
  assumes "GetOperation a = Update"
    and "GetObject a = PodObject pod"
    and "GetOldObject a = PodObject oldPod"
  shows "admitPod e p a =
           (None, PodObject (pod\<lparr>Spec := (Spec pod)\<lparr>Priority :=
              (case Priority (Spec pod) of None \<Rightarrow> Priority (Spec oldPod) | Some v \<Rightarrow> Some v)\<rparr>\<rparr>)) \<and>
         (Priority (Spec pod) = None \<and> Priority (Spec oldPod) \<noteq> None \<longrightarrow>
            admitPod e p a = (None, PodObject (pod\<lparr>Spec := (Spec pod)\<lparr>Priority := Priority (Spec oldPod)\<rparr>\<rparr>))) \<and>
         (Priority (Spec pod) \<noteq> None \<longrightarrow> admitPod e p a = (None, PodObject pod))"
  using assms by (cases "Priority (Spec pod)") (auto simp add: admitPod_def)

theorem admitPod_Update_preserves_priority_witness:
  "admitPod (kubeEnv (gateOf True True)) \<lparr>lister = listerOf []\<rparr>
     (podRequest Update ''default'' (plainPod ''batch'' None) (PodObject (plainPod ''batch'' (Some 7)))) =
   (None, PodObject (plainPod ''batch'' (Some 7))) \<and>
   admitPod (kubeEnv (gateOf True True)) \<lparr>lister = listerOf []\<rparr>
     (podRequest Update ''default'' (plainPod ''batch'' (Some 7)) (PodObject (plainPod ''batch'' (Some 7)))) =
   (None, PodObject (plainPod ''batch'' (Some 7)))"
proof -
  let ?e = "kubeEnv (gateOf True True)"
  let ?p = "\<lparr>lister = listerOf []\<rparr>"
  let ?old = "plainPod ''batch'' (Some 7)"
  let ?a = "podRequest Update ''default'' (plainPod ''batch'' None) (PodObject ?old)"
  let ?b = "podRequest Update ''default'' (plainPod ''batch'' (Some 7)) (PodObject ?old)"
  have a: "GetOperation ?a = Update" "GetObject ?a = PodObject (plainPod ''batch'' None)"
    "GetOldObject ?a = PodObject ?old"
    by (simp_all add: podRequest_def)
  have b: "GetOperation ?b = Update" "GetObject ?b = PodObject (plainPod ''batch'' (Some 7))"
    "GetOldObject ?b = PodObject ?old"
    by (simp_all add: podRequest_def)
  show ?thesis
    using admitPod_Update_preserves_priority [OF a, of ?e ?p]
      admitPod_Update_preserves_priority [OF b, of ?e ?p]
    by (simp add: plainPod_def)
qed

subsection \<open>The priority of a pod after admission\<close>

text \<open>
  \<open>admitPod\<close> on Update keeps a pod that has a priority as it is, whatever the old object
  is, and a successful \<open>admitPod\<close> on Create leaves a priority on the pod.
\<close>

lemma admitPod_Update:
  "GetOperation a = Update \<Longrightarrow> GetObject a = PodObject pod \<Longrightarrow>
   GetOldObject a = PodObject oldPod \<Longrightarrow>
   admitPod e p a =
     (None, PodObject (pod\<lparr>Spec := (Spec pod)\<lparr>Priority :=
        (case Priority (Spec pod) of None \<Rightarrow> Priority (Spec oldPod) | Some v \<Rightarrow> Some v)\<rparr>\<rparr>))"
  by (cases "Priority (Spec pod)") (auto simp add: admitPod_def)

lemma admitPod_Update_object:
  "GetOperation a = Update \<Longrightarrow> GetObject a = PodObject pod \<Longrightarrow>
   Priority (Spec pod) \<noteq> None \<Longrightarrow> snd (admitPod e p a) = PodObject pod"
  by (auto simp add: admitPod_def split: object.splits)

lemma admitPod_Create_populated:
  "GetOperation a = Create \<Longrightarrow> GetObject a = PodObject pod \<Longrightarrow>
   admitPod e p a = (None, obj) \<Longrightarrow>
   \<exists>pod'. obj = PodObject pod' \<and> Priority (Spec pod') \<noteq> None"
  by (auto simp add: admitPod_def Let_def split: if_splits sum.splits option.splits prod.splits)

text \<open>
  C4. After a successful \<open>Admit\<close> of a pod Create (feature enabled, primary resource, the
  object a pod, no error) the pod has a priority. \<open>Admit\<close> of an Update never clears a
  priority: a new pod that has one is returned as it is, under every setting of the feature
  gates; and where the update reaches \<open>admitPod\<close> and the old pod has a priority, the pod
  has one after the call.
\<close>

theorem Admit_priority_populated:
  "(Enabled (DefaultFeatureGate e) PodPriority \<and> GetSubresource a = [] \<and>
    GetResource a = podResource e \<and> GetOperation a = Create \<and> GetObject a = PodObject pod \<and>
    Admit e p a = (None, obj) \<longrightarrow>
      (\<exists>pod'. obj = PodObject pod' \<and> Priority (Spec pod') \<noteq> None)) \<and>
   (GetOperation a = Update \<and> GetObject a = PodObject pod \<and> Priority (Spec pod) \<noteq> None \<longrightarrow>
      snd (Admit e p a) = PodObject pod) \<and>
   (Enabled (DefaultFeatureGate e) PodPriority \<and> GetSubresource a = [] \<and>
    GetResource a = podResource e \<and> GetOperation a = Update \<and> GetObject a = PodObject pod \<and>
    GetOldObject a = PodObject oldPod \<and> Priority (Spec oldPod) \<noteq> None \<longrightarrow>
      (\<exists>pod'. Admit e p a = (None, PodObject pod') \<and> Priority (Spec pod') \<noteq> None))"
proof (intro conjI impI)
  assume h: "Enabled (DefaultFeatureGate e) PodPriority \<and> GetSubresource a = [] \<and>
    GetResource a = podResource e \<and> GetOperation a = Create \<and> GetObject a = PodObject pod \<and>
    Admit e p a = (None, obj)"
  then have "admitPod e p a = (None, obj)" by (auto simp add: Admit_def)
  with h show "\<exists>pod'. obj = PodObject pod' \<and> Priority (Spec pod') \<noteq> None"
    using admitPod_Create_populated [of a pod e p obj] by simp
next
  assume h: "GetOperation a = Update \<and> GetObject a = PodObject pod \<and> Priority (Spec pod) \<noteq> None"
  then show "snd (Admit e p a) = PodObject pod"
    using admitPod_Update_object [of a pod e p] by (simp add: Admit_def)
next
  assume h: "Enabled (DefaultFeatureGate e) PodPriority \<and> GetSubresource a = [] \<and>
    GetResource a = podResource e \<and> GetOperation a = Update \<and> GetObject a = PodObject pod \<and>
    GetOldObject a = PodObject oldPod \<and> Priority (Spec oldPod) \<noteq> None"
  then have "Admit e p a = admitPod e p a" by (auto simp add: Admit_def)
  with h admitPod_Update [of a pod oldPod e p]
  show "\<exists>pod'. Admit e p a = (None, PodObject pod') \<and> Priority (Spec pod') \<noteq> None"
    by (cases "Priority (Spec pod)") auto
qed

theorem Admit_priority_populated_witness:
  "Admit (kubeEnv (gateOf True True))
     \<lparr>lister = listerOf [\<lparr>Name = ''batch'', Value = 100, GlobalDefault = False\<rparr>]\<rparr>
     (podRequest Create ''default'' (plainPod ''batch'' None) NilObject) =
   (None, PodObject (plainPod ''batch'' (Some 100))) \<and>
   snd (Admit (kubeEnv (gateOf False False)) \<lparr>lister = listerOf []\<rparr>
     (podRequest Update ''default'' (plainPod ''batch'' (Some 7)) (PodObject (plainPod ''batch'' (Some 7))))) =
   PodObject (plainPod ''batch'' (Some 7)) \<and>
   (\<exists>pod'. Admit (kubeEnv (gateOf True True)) \<lparr>lister = listerOf []\<rparr>
     (podRequest Update ''default'' (plainPod ''batch'' None) (PodObject (plainPod ''batch'' (Some 7)))) =
     (None, PodObject pod') \<and> Priority (Spec pod') \<noteq> None)"
proof -
  let ?e = "kubeEnv (gateOf True True)"
  let ?p = "\<lparr>lister = listerOf [\<lparr>Name = ''batch'', Value = 100, GlobalDefault = False\<rparr>]\<rparr>"
  let ?a = "podRequest Create ''default'' (plainPod ''batch'' None) NilObject"
  let ?b = "podRequest Update ''default'' (plainPod ''batch'' (Some 7)) (PodObject (plainPod ''batch'' (Some 7)))"
  let ?c = "podRequest Update ''default'' (plainPod ''batch'' None) (PodObject (plainPod ''batch'' (Some 7)))"
  have run: "Admit ?e ?p ?a = (None, PodObject (plainPod ''batch'' (Some 100)))"
    by (simp add: Admit_def admitPod_def Enabled_def gateOf_def kubeEnv_def podRequest_def
        plainPod_def listerOf_def priorityClassPermittedInNamespace_def)
  have gate: "Enabled (DefaultFeatureGate ?e) PodPriority"
    by (simp add: Enabled_def gateOf_def kubeEnv_def)
  have c1: "\<exists>pod'. PodObject (plainPod ''batch'' (Some 100)) = PodObject pod' \<and> Priority (Spec pod') \<noteq> None"
    using Admit_priority_populated
      [of ?e ?a "plainPod ''batch'' None" ?p "PodObject (plainPod ''batch'' (Some 100))"] run gate
    by (simp add: podRequest_def kubeEnv_def)
  have c2: "snd (Admit (kubeEnv (gateOf False False)) \<lparr>lister = listerOf []\<rparr> ?b) =
    PodObject (plainPod ''batch'' (Some 7))"
    using Admit_priority_populated
      [of "kubeEnv (gateOf False False)" ?b "plainPod ''batch'' (Some 7)" "\<lparr>lister = listerOf []\<rparr>"]
    by (simp add: podRequest_def plainPod_def)
  have c3: "\<exists>pod'. Admit ?e \<lparr>lister = listerOf []\<rparr> ?c = (None, PodObject pod') \<and> Priority (Spec pod') \<noteq> None"
    using Admit_priority_populated
      [of ?e ?c "plainPod ''batch'' None" "\<lparr>lister = listerOf []\<rparr>" _ "plainPod ''batch'' (Some 7)"] gate
    by (simp add: podRequest_def plainPod_def kubeEnv_def)
  from run c1 c2 c3 show ?thesis by simp
qed

subsection \<open>Namespace policy\<close>

text \<open>
  C8. \<open>priorityClassPermittedInNamespace\<close> is false exactly when the name is the name of
  one of the system priority classes and the namespace is not the system namespace.
\<close>

theorem priorityClassPermittedInNamespace_iff:
  "\<not> priorityClassPermittedInNamespace e priorityClassName namespace \<longleftrightarrow>
     priorityClassName \<in> Name ` set (SystemPriorityClasses e) \<and> namespace \<noteq> NamespaceSystem e"
  by (simp add: priorityClassPermittedInNamespace_def permittedLoop_iff)

theorem priorityClassPermittedInNamespace_iff_witness:
  "\<not> priorityClassPermittedInNamespace (kubeEnv (gateOf True True)) ''system-node-critical'' ''default'' \<and>
   priorityClassPermittedInNamespace (kubeEnv (gateOf True True)) ''system-node-critical'' ''kube-system'' \<and>
   priorityClassPermittedInNamespace (kubeEnv (gateOf True True)) ''batch'' ''default''"
  using priorityClassPermittedInNamespace_iff [of "kubeEnv (gateOf True True)" "''system-node-critical''" "''default''"]
    priorityClassPermittedInNamespace_iff [of "kubeEnv (gateOf True True)" "''system-node-critical''" "''kube-system''"]
    priorityClassPermittedInNamespace_iff [of "kubeEnv (gateOf True True)" "''batch''" "''default''"]
  by (simp add: kubeEnv_def)

subsection \<open>Validation of a PriorityClass\<close>

text \<open>
  C3. Validation of a PriorityClass with \<open>GlobalDefault\<close> set, on Create, with \<open>List\<close>
  succeeding: if the index shows a class with \<open>GlobalDefault\<close> set the request is forbidden
  (the error names one of the visible defaults); if it shows none the request is accepted. A
  PriorityClass with \<open>GlobalDefault\<close> unset is accepted under every operation and every
  index.
\<close>

theorem validatePriorityClass_Create_second_default:
  assumes "GetObject a = PriorityClassObject pc"
  shows "(GlobalDefault pc \<and> GetOperation a = Create \<and> List (lister p) = Inr list \<longrightarrow>
            ((\<exists>c \<in> set list. GlobalDefault c) \<longrightarrow>
               (\<exists>dpc \<in> set list. GlobalDefault dpc \<and>
                  validatePriorityClass e p a = Some (Forbidden (AlreadyMarkedAsDefault (Name dpc))))) \<and>
            ((\<forall>c \<in> set list. \<not> GlobalDefault c) \<longrightarrow> validatePriorityClass e p a = None)) \<and>
         (\<not> GlobalDefault pc \<longrightarrow> validatePriorityClass e p a = None)"
proof (intro conjI impI)
  assume h: "GlobalDefault pc \<and> GetOperation a = Create \<and> List (lister p) = Inr list"
    and ex: "\<exists>c \<in> set list. GlobalDefault c"
  from h ex getDefaultPriorityClass_some [of p list] obtain d where
    "d \<in> set list" "GlobalDefault d" "getDefaultPriorityClass p = Inr (Some d)"
    by blast
  with h assms show "\<exists>dpc \<in> set list. GlobalDefault dpc \<and>
      validatePriorityClass e p a = Some (Forbidden (AlreadyMarkedAsDefault (Name dpc)))"
    by (auto simp add: validatePriorityClass_def GetName_def)
next
  assume h: "GlobalDefault pc \<and> GetOperation a = Create \<and> List (lister p) = Inr list"
    and no: "\<forall>c \<in> set list. \<not> GlobalDefault c"
  with assms getDefaultPriorityClass_none [of p list]
  show "validatePriorityClass e p a = None"
    by (simp add: validatePriorityClass_def)
next
  assume "\<not> GlobalDefault pc"
  with assms show "validatePriorityClass e p a = None"
    by (simp add: validatePriorityClass_def)
qed

theorem validatePriorityClass_Create_second_default_witness:
  "validatePriorityClass (kubeEnv (gateOf True True))
     \<lparr>lister = listerOf [\<lparr>Name = ''first'', Value = 10, GlobalDefault = True\<rparr>]\<rparr>
     (classRequest Create \<lparr>Name = ''second'', Value = 20, GlobalDefault = True\<rparr>) =
     Some (Forbidden (AlreadyMarkedAsDefault ''first'')) \<and>
   validatePriorityClass (kubeEnv (gateOf True True))
     \<lparr>lister = listerOf [\<lparr>Name = ''plain'', Value = 10, GlobalDefault = False\<rparr>]\<rparr>
     (classRequest Create \<lparr>Name = ''second'', Value = 20, GlobalDefault = True\<rparr>) = None \<and>
   validatePriorityClass (kubeEnv (gateOf True True))
     \<lparr>lister = listerOf [\<lparr>Name = ''first'', Value = 10, GlobalDefault = True\<rparr>]\<rparr>
     (classRequest Create \<lparr>Name = ''second'', Value = 20, GlobalDefault = False\<rparr>) = None"
proof -
  let ?e = "kubeEnv (gateOf True True)"
  let ?first = "\<lparr>Name = ''first'', Value = 10, GlobalDefault = True\<rparr>"
  let ?plain = "\<lparr>Name = ''plain'', Value = 10, GlobalDefault = False\<rparr>"
  let ?second = "\<lparr>Name = ''second'', Value = 20, GlobalDefault = True\<rparr>"
  let ?other = "\<lparr>Name = ''second'', Value = 20, GlobalDefault = False\<rparr>"
  have o1: "GetObject (classRequest Create ?second) = PriorityClassObject ?second"
    and o2: "GetObject (classRequest Create ?other) = PriorityClassObject ?other"
    by (simp_all add: classRequest_def)
  have c1: "validatePriorityClass ?e \<lparr>lister = listerOf [?first]\<rparr> (classRequest Create ?second) =
            Some (Forbidden (AlreadyMarkedAsDefault ''first''))"
    using validatePriorityClass_Create_second_default
      [OF o1, of "\<lparr>lister = listerOf [?first]\<rparr>" "[?first]" ?e]
    by (simp add: classRequest_def listerOf_def)
  have c2: "validatePriorityClass ?e \<lparr>lister = listerOf [?plain]\<rparr> (classRequest Create ?second) = None"
    using validatePriorityClass_Create_second_default
      [OF o1, of "\<lparr>lister = listerOf [?plain]\<rparr>" "[?plain]" ?e]
    by (simp add: classRequest_def listerOf_def)
  have c3: "validatePriorityClass ?e \<lparr>lister = listerOf [?first]\<rparr> (classRequest Create ?other) = None"
    using validatePriorityClass_Create_second_default
      [OF o2, of "\<lparr>lister = listerOf [?first]\<rparr>" "[?first]" ?e]
    by simp
  from c1 c2 c3 show ?thesis by simp
qed

text \<open>
  On Update of a class with \<open>GlobalDefault\<close> set, the class is compared by name with the
  one default \<open>getDefaultPriorityClass\<close> picks, the visible default of lowest value. The
  update is accepted when every visible default bears the updated class's name, and forbidden
  when the single visible default bears another name.
\<close>

lemma validatePriorityClass_Update:
  assumes "GetOperation a = Update" and "GetObject a = PriorityClassObject pc"
    and "GlobalDefault pc" and "List (lister p) = Inr list"
  shows "validatePriorityClass e p a =
           (case defaultLoop None list of
              None \<Rightarrow> None
            | Some dpc \<Rightarrow>
                if Name dpc \<noteq> Name pc then Some (Forbidden (AlreadyMarkedAsDefault (Name dpc)))
                else None)"
  using assms
  by (simp add: validatePriorityClass_def getDefaultPriorityClass_def GetName_def
      split: option.splits)

lemma validatePriorityClass_Update_accepts:
  assumes "GetOperation a = Update" and "GetObject a = PriorityClassObject pc"
    and "List (lister p) = Inr list"
    and "\<forall>c \<in> set list. GlobalDefault c \<longrightarrow> Name c = Name pc"
  shows "validatePriorityClass e p a = None"
proof (cases "GlobalDefault pc")
  case True
  show ?thesis
  proof (cases "defaultLoop None list")
    case None
    with assms True show ?thesis by (simp add: validatePriorityClass_Update)
  next
    case (Some d)
    with defaultLoop_None [of list] have "d \<in> set list" "GlobalDefault d" by auto
    with assms(4) have "Name d = Name pc" by blast
    with assms True Some show ?thesis by (simp add: validatePriorityClass_Update)
  qed
next
  case False
  with assms show ?thesis by (simp add: validatePriorityClass_def)
qed

lemma validatePriorityClass_Update_single_other:
  assumes "GetOperation a = Update" and "GetObject a = PriorityClassObject pc"
    and "GlobalDefault pc" and "List (lister p) = Inr list"
    and "filter GlobalDefault list = [c]" and "Name c \<noteq> Name pc"
  shows "validatePriorityClass e p a = Some (Forbidden (AlreadyMarkedAsDefault (Name c)))"
proof -
  have "set (filter GlobalDefault list) = {x \<in> set list. GlobalDefault x}" by simp
  with assms(5) have "{x \<in> set list. GlobalDefault x} = {c}" by simp
  then have mem: "\<And>x. x \<in> set list \<and> GlobalDefault x \<longleftrightarrow> x = c" by blast
  then have "\<exists>x \<in> set list. GlobalDefault x" by blast
  with defaultLoop_None [of list] obtain d where
    d: "defaultLoop None list = Some d" "d \<in> set list" "GlobalDefault d" by auto
  from d(2,3) mem [of d] have "d = c" by simp
  with d(1) have "defaultLoop None list = Some c" by simp
  with assms show ?thesis by (simp add: validatePriorityClass_Update)
qed

text \<open>
  C2. With two defaults visible, \<open>low\<close> (value 5) and \<open>high\<close> (value 10), an Update of
  \<open>low\<close> with \<open>GlobalDefault\<close> set is accepted although \<open>high\<close>, a default of another name,
  is visible; the same Update of \<open>high\<close> is forbidden.
\<close>

theorem validatePriorityClass_Update_lowest_of_two_defaults:
  "validatePriorityClass (kubeEnv (gateOf True True))
     \<lparr>lister = listerOf [\<lparr>Name = ''low'', Value = 5, GlobalDefault = True\<rparr>,
                         \<lparr>Name = ''high'', Value = 10, GlobalDefault = True\<rparr>]\<rparr>
     (classRequest Update \<lparr>Name = ''low'', Value = 5, GlobalDefault = True\<rparr>) = None \<and>
   validatePriorityClass (kubeEnv (gateOf True True))
     \<lparr>lister = listerOf [\<lparr>Name = ''low'', Value = 5, GlobalDefault = True\<rparr>,
                         \<lparr>Name = ''high'', Value = 10, GlobalDefault = True\<rparr>]\<rparr>
     (classRequest Update \<lparr>Name = ''high'', Value = 10, GlobalDefault = True\<rparr>) =
     Some (Forbidden (AlreadyMarkedAsDefault ''low''))"
  by (simp add: validatePriorityClass_def getDefaultPriorityClass_def GetName_def
      classRequest_def listerOf_def)

subsection \<open>Feature gates\<close>

text \<open>
  C10. \<open>Validate\<close> gives the same result under any two settings of the feature gate, and
  \<open>Admit\<close> returns no error and the object unchanged when the pod-priority feature is
  disabled.
\<close>

theorem Validate_not_feature_gated:
  "Validate (e\<lparr>DefaultFeatureGate := gate\<rparr>) p a = Validate (e\<lparr>DefaultFeatureGate := gate'\<rparr>) p a \<and>
   (\<not> Enabled gate PodPriority \<longrightarrow>
      Admit (e\<lparr>DefaultFeatureGate := gate\<rparr>) p a = (None, GetObject a))"
  by (simp add: Validate_def validatePriorityClass_def Admit_def Let_def)

theorem Validate_not_feature_gated_witness:
  "Validate (kubeEnv (gateOf True True))
     \<lparr>lister = listerOf [\<lparr>Name = ''first'', Value = 10, GlobalDefault = True\<rparr>]\<rparr>
     (classRequest Create \<lparr>Name = ''second'', Value = 20, GlobalDefault = True\<rparr>) =
   Validate (kubeEnv (gateOf False False))
     \<lparr>lister = listerOf [\<lparr>Name = ''first'', Value = 10, GlobalDefault = True\<rparr>]\<rparr>
     (classRequest Create \<lparr>Name = ''second'', Value = 20, GlobalDefault = True\<rparr>) \<and>
   \<not> Enabled (gateOf False False) PodPriority \<and>
   Admit (kubeEnv (gateOf False False)) \<lparr>lister = listerOf []\<rparr>
     (podRequest Create ''default'' (plainPod [] None) NilObject) =
   (None, PodObject (plainPod [] None))"
proof -
  let ?p = "\<lparr>lister = listerOf [\<lparr>Name = ''first'', Value = 10, GlobalDefault = True\<rparr>]\<rparr>"
  let ?a = "classRequest Create \<lparr>Name = ''second'', Value = 20, GlobalDefault = True\<rparr>"
  have on: "kubeEnv (gateOf True True) = (kubeEnv (gateOf False False))\<lparr>DefaultFeatureGate := gateOf True True\<rparr>"
    and off: "kubeEnv (gateOf False False) = (kubeEnv (gateOf False False))\<lparr>DefaultFeatureGate := gateOf False False\<rparr>"
    by (simp_all add: kubeEnv_def)
  have g: "\<not> Enabled (gateOf False False) PodPriority" by (simp add: Enabled_def gateOf_def)
  from Validate_not_feature_gated
    [where e = "kubeEnv (gateOf False False)" and gate = "gateOf True True" and p = ?p and a = ?a
       and gate' = "gateOf False False"]
  have c1: "Validate (kubeEnv (gateOf True True)) ?p ?a = Validate (kubeEnv (gateOf False False)) ?p ?a"
    using on off by simp
  from Validate_not_feature_gated
    [where e = "kubeEnv (gateOf False False)" and gate = "gateOf False False"
       and p = "\<lparr>lister = listerOf []\<rparr>"
       and a = "podRequest Create ''default'' (plainPod [] None) NilObject"
       and gate' = "gateOf False False"] g
  have c2: "Admit (kubeEnv (gateOf False False)) \<lparr>lister = listerOf []\<rparr>
     (podRequest Create ''default'' (plainPod [] None) NilObject) = (None, PodObject (plainPod [] None))"
    using off by (simp add: podRequest_def)
  from c1 g c2 show ?thesis by simp
qed

end
